theory Spec2Isabelle
  imports Complex_Main "HOL-Library.AList"
begin

section \<open>Values, objects and errors\<close>

text \<open>
  The adapters are TypeScript classes whose inputs and outputs are plain JavaScript
  objects (\<open>Record<string, unknown>\<close>). A value is modelled by \<open>jv\<close>; an object is an
  association list from property names to values, in insertion order. Reading a
  property that is absent gives \<open>undefined\<close>, as in JavaScript. Numbers are the numbers a
  JSON body can carry; \<open>NaN\<close> and the infinities are not represented.
\<close>

datatype jv =
    JUndefined
  | JNull
  | JBool bool
  | JNum rat
  | JStr string
  | JArr "jv list"
  | JObj "(string \<times> jv) list"

type_synonym obj = "(string \<times> jv) list"

definition get_prop :: "obj \<Rightarrow> string \<Rightarrow> jv" where
  "get_prop m k = (case map_of m k of Some v \<Rightarrow> v | None \<Rightarrow> JUndefined)"

text \<open>\<open>x?.k\<close>: optional chaining on a value that may be \<open>undefined\<close> or \<open>null\<close>.\<close>

definition opt_member :: "jv \<Rightarrow> string \<Rightarrow> jv" where
  "opt_member v k = (case v of JObj m \<Rightarrow> get_prop m k | _ \<Rightarrow> JUndefined)"

text \<open>\<open>input.data?.k\<close> where \<open>data\<close> is an optional record.\<close>

definition data_prop :: "obj option \<Rightarrow> string \<Rightarrow> jv" where
  "data_prop d k = (case d of None \<Rightarrow> JUndefined | Some m \<Rightarrow> get_prop m k)"

text \<open>JavaScript truthiness, as tested by \<open>if (x)\<close>, \<open>!x\<close> and \<open>x || y\<close>.\<close>

fun truthy :: "jv \<Rightarrow> bool" where
  "truthy JUndefined = False"
| "truthy JNull = False"
| "truthy (JBool b) = b"
| "truthy (JNum n) = (n \<noteq> 0)"
| "truthy (JStr s) = (s \<noteq> [])"
| "truthy (JArr xs) = True"
| "truthy (JObj m) = True"

text \<open>
  Object spread \<open>{...a, ...b}\<close>: the properties of \<open>b\<close> are written over those of \<open>a\<close>;
  a key that exists keeps its place, a new key is appended.
\<close>

definition spread :: "obj \<Rightarrow> obj \<Rightarrow> obj" where
  "spread a b = fold (\<lambda>(k, v). AList.update k v) b a"

text \<open>\<open>{...input.data}\<close> where \<open>data\<close> is an optional record: spreading \<open>undefined\<close> adds nothing.\<close>

definition spread_data :: "obj option \<Rightarrow> obj" where
  "spread_data d = (case d of None \<Rightarrow> [] | Some m \<Rightarrow> m)"

datatype error_type =
    INVALID_DATA
  | NOT_FOUND
  | PAYMENT_AUTHORIZATION_ERROR
  | PAYMENT_CAPTURE_ERROR

text \<open>
  What a \<open>throw\<close> carries: a \<open>MedusaError\<close> raised by the adapter, an error thrown by a
  gateway client (any message), or the \<open>TypeError\<close> of reading a property of
  \<open>undefined\<close>.
\<close>

datatype error =
    MedusaError error_type string
  | ClientError string
  | TypeError string

fun message :: "error \<Rightarrow> string" where
  "message (MedusaError t m) = m"
| "message (ClientError m) = m"
| "message (TypeError m) = m"

section \<open>Host-side payment status\<close>

text \<open>
  \<open>PaymentSessionStatus\<close> of the host framework, with the string each member stands for.
\<close>

datatype PaymentSessionStatus =
    AUTHORIZED
  | CAPTURED
  | PENDING
  | REQUIRES_MORE
  | ERROR
  | CANCELED

fun session_status_text :: "PaymentSessionStatus \<Rightarrow> string" where
  "session_status_text AUTHORIZED = ''authorized''"
| "session_status_text CAPTURED = ''captured''"
| "session_status_text PENDING = ''pending''"
| "session_status_text REQUIRES_MORE = ''requires_more''"
| "session_status_text ERROR = ''error''"
| "session_status_text CANCELED = ''canceled''"

text \<open>
  Both adapters map a gateway status by indexing an object literal,
  \<open>statusMap[status]\<close>. The result is the entry when the literal has the key, the
  inherited member when the key names a property of \<open>Object.prototype\<close>, and
  \<open>undefined\<close> otherwise.
\<close>

datatype status_value =
    Mapped PaymentSessionStatus
  | Unmapped
  | Inherited string

definition object_prototype_keys :: "string list" where
  "object_prototype_keys =
     [''constructor'', ''__defineGetter__'', ''__defineSetter__'', ''hasOwnProperty'',
      ''__lookupGetter__'', ''__lookupSetter__'', ''isPrototypeOf'',
      ''propertyIsEnumerable'', ''toString'', ''valueOf'', ''__proto__'',
      ''toLocaleString'']"

definition index_statusMap :: "(string \<times> PaymentSessionStatus) list \<Rightarrow> string \<Rightarrow> status_value" where
  "index_statusMap m s =
     (case map_of m s of
        Some h \<Rightarrow> Mapped h
      | None \<Rightarrow> if s \<in> set object_prototype_keys then Inherited s else Unmapped)"

text \<open>
  The text a template literal \<open>`${status}`\<close> and \<open>Array.includes\<close> see for a mapped
  status: the member's string, \<open>undefined\<close>, or the engine's rendering of an inherited
  member.
\<close>

fun status_text :: "status_value \<Rightarrow> string" where
  "status_text (Mapped h) = session_status_text h"
| "status_text Unmapped = ''undefined''"
| "status_text (Inherited k) =
     (if k = ''__proto__'' then ''[object Object]''
      else ''function '' @ (if k = ''constructor'' then ''Object'' else k) @ ''() { [native code] }'')"

text \<open>
  \<open>[...].includes(status)\<close> and \<open>status === "..."\<close> compare with strict equality, so only
  a mapped status, which is a string, can be equal to a string literal.
\<close>

fun status_is :: "status_value \<Rightarrow> string \<Rightarrow> bool" where
  "status_is (Mapped h) s = (session_status_text h = s)"
| "status_is Unmapped s = False"
| "status_is (Inherited k) s = False"

record status_output =
  out_status :: status_value
  out_data :: "obj option"

section \<open>The Mollie adapter\<close>

text \<open>
  \<open>MolliePaymentProviderService\<close> of \<open>providers/mollie/service.ts\<close>. The gateway is an
  external collaborator: its client is a record of operations over a gateway state
  \<open>'w\<close>. Every operation returns its answer (or the error it throws) and the next
  gateway state, so a gateway may answer the same question differently the second time.
  Every call the adapter makes is appended to a log, so that what an operation asks of
  the gateway can be stated. The logger is assumed not to throw and is left out.
\<close>

record mollie_payment =
  pay_id :: string
  pay_status :: string
  pay_amount :: jv
  pay_metadata :: jv
  pay_rest :: obj

text \<open>
  The payment as the plain object the adapter spreads and returns: the fields the adapter
  reads, over whatever else the gateway sent.
\<close>

definition payment_obj :: "mollie_payment \<Rightarrow> obj" where
  "payment_obj p =
     spread (pay_rest p)
       ([(''id'', JStr (pay_id p)), (''status'', JStr (pay_status p))]
        @ (if pay_amount p = JUndefined then [] else [(''amount'', pay_amount p)])
        @ (if pay_metadata p = JUndefined then [] else [(''metadata'', pay_metadata p)]))"

datatype CaptureMethod = automatic | manual

record BillingAddress =
  streetAndNumber :: jv
  postalCode :: jv
  city :: jv
  country :: jv

record PaymentCreateParams =
  billingAddress :: BillingAddress
  billingEmail :: jv
  amount_value :: string
  amount_currency :: string
  cp_description :: string
  captureMode :: CaptureMethod
  cp_redirectUrl :: string
  cp_webhookUrl :: string
  metadata_idempotency_key :: jv

datatype mollie_call =
    PaymentsGet jv
  | PaymentsCreate PaymentCreateParams
  | PaymentsCancel jv
  | PaymentCapturesCreate jv

record 'w mollie_client =
  payments_get :: "'w \<Rightarrow> jv \<Rightarrow> (error + mollie_payment) \<times> 'w"
  payments_create :: "'w \<Rightarrow> PaymentCreateParams \<Rightarrow> (error + mollie_payment) \<times> 'w"
  payments_cancel :: "'w \<Rightarrow> jv \<Rightarrow> (error + mollie_payment) \<times> 'w"
  paymentCaptures_create :: "'w \<Rightarrow> jv \<Rightarrow> (error + unit) \<times> 'w"

type_synonym 'w mstate = "'w \<times> mollie_call list"

definition client_get ::
  "'w mollie_client \<Rightarrow> jv \<Rightarrow> 'w mstate \<Rightarrow> (error + mollie_payment) \<times> 'w mstate" where
  "client_get c i s =
     (case payments_get c (fst s) i of (r, w') \<Rightarrow> (r, (w', snd s @ [PaymentsGet i])))"

definition client_create ::
  "'w mollie_client \<Rightarrow> PaymentCreateParams \<Rightarrow> 'w mstate \<Rightarrow> (error + mollie_payment) \<times> 'w mstate" where
  "client_create c ps s =
     (case payments_create c (fst s) ps of (r, w') \<Rightarrow> (r, (w', snd s @ [PaymentsCreate ps])))"

definition client_cancel ::
  "'w mollie_client \<Rightarrow> jv \<Rightarrow> 'w mstate \<Rightarrow> (error + mollie_payment) \<times> 'w mstate" where
  "client_cancel c i s =
     (case payments_cancel c (fst s) i of (r, w') \<Rightarrow> (r, (w', snd s @ [PaymentsCancel i])))"


record mollie_options =
  mo_apiKey :: string
  mo_redirectUrl :: string
  mo_medusaUrl :: string
  mo_autoCapture :: "bool option"
  mo_description :: "string option"
  mo_debug :: "bool option"

text \<open>The fields the constructor sets; \<open>options\<close> is stored as it was given.\<close>

record mollie_service =
  ms_options :: mollie_options
  ms_debug :: bool
  ms_webhookUrl :: string

definition mollie_constructor :: "string \<Rightarrow> mollie_options \<Rightarrow> mollie_service" where
  "mollie_constructor NODE_ENV options =
     \<lparr> ms_options = options,
       ms_debug = (mo_debug options = Some True \<or> NODE_ENV = ''development'' \<or> NODE_ENV = ''test''),
       ms_webhookUrl =
         (if mo_medusaUrl options \<noteq> [] \<and> last (mo_medusaUrl options) = CHR ''/''
          then butlast (mo_medusaUrl options) else mo_medusaUrl options)
         @ ''/hooks/payment/mollie_mollie'' \<rparr>"

definition mollie_statusMap :: "(string \<times> PaymentSessionStatus) list" where
  "mollie_statusMap =
     [(''open'', REQUIRES_MORE),
      (''canceled'', CANCELED),
      (''pending'', PENDING),
      (''authorized'', AUTHORIZED),
      (''expired'', ERROR),
      (''failed'', ERROR),
      (''paid'', CAPTURED)]"

definition mollie_getPaymentStatus ::
  "'w mollie_client \<Rightarrow> obj option \<Rightarrow> 'w mstate \<Rightarrow> (error + status_output) \<times> 'w mstate" where
  "mollie_getPaymentStatus c input_data s =
     (let paymentId = data_prop input_data ''id'' in
      case client_get c paymentId s of
        (Inl e, s') \<Rightarrow> (Inl e, s')
      | (Inr p, s') \<Rightarrow>
          (Inr \<lparr> out_status = index_statusMap mollie_statusMap (pay_status p),
                 out_data = None \<rparr>, s'))"

definition mollie_retrievePayment ::
  "'w mollie_client \<Rightarrow> obj option \<Rightarrow> 'w mstate \<Rightarrow> (error + mollie_payment) \<times> 'w mstate" where
  "mollie_retrievePayment c input_data s = client_get c (data_prop input_data ''id'') s"

text \<open>\<open>a || b\<close> on values.\<close>

definition or_else :: "jv \<Rightarrow> jv \<Rightarrow> jv" where
  "or_else a b = (if truthy a then a else b)"

text \<open>\<open>x.k\<close> without optional chaining: reading a property of \<open>undefined\<close> or \<open>null\<close> throws.\<close>

definition read_member :: "jv \<Rightarrow> string \<Rightarrow> error + jv" where
  "read_member v k =
     (case v of
        JUndefined \<Rightarrow> Inl (TypeError (''Cannot read properties of undefined (reading '' @ k @ '')''))
      | JNull \<Rightarrow> Inl (TypeError (''Cannot read properties of null (reading '' @ k @ '')''))
      | JObj m \<Rightarrow> Inr (get_prop m k)
      | _ \<Rightarrow> Inr JUndefined)"

text \<open>\<open>String.toUpperCase\<close> on the ASCII letters of a currency code.\<close>

definition toUpperCase :: "string \<Rightarrow> string" where
  "toUpperCase cs =
     map (\<lambda>c. if 97 \<le> (of_char c :: nat) \<and> (of_char c :: nat) \<le> 122
              then char_of ((of_char c :: nat) - 32) else c) cs"

text \<open>
  The input of \<open>initiatePayment\<close>. The amount is whatever the host passes; the function
  \<open>toFixed2\<close> given to the adapter stands for \<open>parseFloat(amount.toString()).toFixed(2)\<close>,
  whose floating-point rounding is not modelled.
\<close>

record 'a InitiatePaymentInput =
  ip_context :: jv
  ip_amount :: 'a
  ip_currency_code :: string

record InitiatePaymentOutput =
  io_id :: jv
  io_data :: obj

definition mollie_createParams ::
  "mollie_service \<Rightarrow> ('a \<Rightarrow> string) \<Rightarrow> 'a InitiatePaymentInput \<Rightarrow> PaymentCreateParams" where
  "mollie_createParams this toFixed2 inp =
     (let billing_address =
            opt_member (opt_member (ip_context inp) ''customer'') ''billing_address''
      in
      \<lparr> billingAddress =
          \<lparr> streetAndNumber = or_else (opt_member billing_address ''address_1'') (JStr []),
            postalCode = or_else (opt_member billing_address ''postal_code'') (JStr []),
            city = or_else (opt_member billing_address ''city'') (JStr []),
            country = or_else (opt_member billing_address ''country_code'') (JStr []) \<rparr>,
        billingEmail =
          or_else (opt_member (opt_member (ip_context inp) ''customer'') ''email'') (JStr []),
        amount_value = toFixed2 (ip_amount inp),
        amount_currency = toUpperCase (ip_currency_code inp),
        cp_description =
          (case mo_description (ms_options this) of
             Some d \<Rightarrow> if d \<noteq> [] then d else ''Mollie payment created by Medusa''
           | None \<Rightarrow> ''Mollie payment created by Medusa''),
        captureMode =
          (if mo_autoCapture (ms_options this) = Some True then automatic else manual),
        cp_redirectUrl = mo_redirectUrl (ms_options this),
        cp_webhookUrl = ms_webhookUrl this,
        metadata_idempotency_key = opt_member (ip_context inp) ''idempotency_key'' \<rparr>)"

definition mollie_initiatePayment ::
  "mollie_service \<Rightarrow> 'w mollie_client \<Rightarrow> ('a \<Rightarrow> string) \<Rightarrow> 'a InitiatePaymentInput \<Rightarrow>
     'w mstate \<Rightarrow> (error + InitiatePaymentOutput) \<times> 'w mstate" where
  "mollie_initiatePayment this c toFixed2 inp s =
     (case client_create c (mollie_createParams this toFixed2 inp) s of
        (Inl e, s') \<Rightarrow> (Inl (MedusaError INVALID_DATA (message e)), s')
      | (Inr p, s') \<Rightarrow> (Inr \<lparr> io_id = JStr (pay_id p), io_data = payment_obj p \<rparr>, s'))"

definition mollie_authorizePayment ::
  "'w mollie_client \<Rightarrow> obj option \<Rightarrow> 'w mstate \<Rightarrow> (error + status_output) \<times> 'w mstate" where
  "mollie_authorizePayment c input_data s =
     (let externalId = data_prop input_data ''id'' in
      if \<not> truthy externalId
      then (Inl (MedusaError INVALID_DATA ''Payment ID is required''), s)
      else
        case mollie_getPaymentStatus c (Some [(''id'', externalId)]) s of
          (Inl e, s') \<Rightarrow> (Inl e, s')
        | (Inr out, s') \<Rightarrow>
            if \<not> (status_is (out_status out) ''captured''
                  \<or> status_is (out_status out) ''authorized''
                  \<or> status_is (out_status out) ''paid'')
            then (Inl (MedusaError INVALID_DATA
                    (''Payment is not authorized: current status is ''
                       @ status_text (out_status out))), s')
            else (Inr \<lparr> out_status = out_status out, out_data = input_data \<rparr>, s'))"



text \<open>
  \<open>cancelPayment\<close>. \<open>const { id } = input.data\<close> throws when the input carries no data.
  Only the status \<open>expired\<close> returns before the cancel call; when the cancel call fails
  the handler returns \<open>{ data: payment }\<close>, which the method wraps once more.
\<close>

definition mollie_cancelPayment ::
  "'w mollie_client \<Rightarrow> obj option \<Rightarrow> 'w mstate \<Rightarrow> (error + obj) \<times> 'w mstate" where
  "mollie_cancelPayment c input_data s =
     (case input_data of
        None \<Rightarrow> (Inl (TypeError ''Cannot destructure property id of undefined''), s)
      | Some d \<Rightarrow>
          let ident = get_prop d ''id'' in
          case client_get c ident s of
            (Inl e, s1) \<Rightarrow> (Inl e, s1)
          | (Inr payment, s1) \<Rightarrow>
              if pay_status payment = ''expired''
              then (Inr [(''id'', data_prop input_data ''id'')], s1)
              else
                case client_cancel c ident s1 of
                  (Inl e, s2) \<Rightarrow> (Inr [(''data'', JObj (payment_obj payment))], s2)
                | (Inr newPayment, s2) \<Rightarrow> (Inr (payment_obj newPayment), s2))"

record WebhookActionResult =
  action :: string
  data :: obj

text \<open>
  The action taken from the status of the fetched payment (the \<open>switch\<close> of
  \<open>getWebhookActionAndData\<close>).
\<close>

definition mollie_action :: "string \<Rightarrow> string" where
  "mollie_action status =
     (if status = ''authorized'' then ''authorized''
      else if status = ''paid'' then ''captured''
      else if status = ''expired'' \<or> status = ''failed'' then ''failed''
      else if status = ''canceled'' then ''canceled''
      else if status = ''pending'' then ''pending''
      else if status = ''open'' then ''requires_more''
      else ''not_supported'')"

text \<open>
  The body of the \<open>try\<close> block. \<open>BigNumber\<close> is the host framework's constructor, which
  may reject its argument; it is a parameter of the model. In \<open>baseData\<close> the payment is
  spread last, so its own \<open>amount\<close> replaces the constructed one.
\<close>

definition mollie_webhook_try ::
  "'w mollie_client \<Rightarrow> (jv \<Rightarrow> error + jv) \<Rightarrow> jv \<Rightarrow> 'w mstate \<Rightarrow>
     (error + WebhookActionResult) \<times> 'w mstate" where
  "mollie_webhook_try c BigNumber payload_data s =
     (case read_member payload_data ''id'' of
        Inl e \<Rightarrow> (Inl e, s)
      | Inr ident \<Rightarrow>
          case mollie_retrievePayment c (Some [(''id'', ident)]) s of
            (Inl e, s1) \<Rightarrow> (Inl (MedusaError NOT_FOUND (message e)), s1)
          | (Inr payment, s1) \<Rightarrow>
              let session_id = opt_member (pay_metadata payment) ''idempotency_key'' in
              case BigNumber (pay_amount payment) of
                Inl e \<Rightarrow> (Inl e, s1)
              | Inr amount \<Rightarrow>
                  (Inr \<lparr> action = mollie_action (pay_status payment),
                         data = spread [(''amount'', amount), (''session_id'', session_id)]
                                  (payment_obj payment) \<rparr>, s1))"

text \<open>
  The whole method: when the \<open>try\<close> block throws, the handler fetches the payment once
  more and answers \<open>failed\<close> from it; it rethrows only when that fetch fails too.
\<close>

definition mollie_getWebhookActionAndData ::
  "'w mollie_client \<Rightarrow> (jv \<Rightarrow> error + jv) \<Rightarrow> jv \<Rightarrow> 'w mstate \<Rightarrow>
     (error + WebhookActionResult) \<times> 'w mstate" where
  "mollie_getWebhookActionAndData c BigNumber payload_data s =
     (case mollie_webhook_try c BigNumber payload_data s of
        (Inr r, s1) \<Rightarrow> (Inr r, s1)
      | (Inl err, s1) \<Rightarrow>
          case read_member payload_data ''id'' of
            Inl e \<Rightarrow> (Inl e, s1)
          | Inr ident \<Rightarrow>
              case mollie_retrievePayment c (Some [(''id'', ident)]) s1 of
                (Inl e, s2) \<Rightarrow> (Inl err, s2)
              | (Inr payment, s2) \<Rightarrow>
                  let session_id = opt_member (pay_metadata payment) ''session_id'' in
                  case BigNumber (pay_amount payment) of
                    Inl e \<Rightarrow> (Inl e, s2)
                  | Inr amount \<Rightarrow>
                      (Inr \<lparr> action = ''failed'',
                             data = spread [(''session_id'', session_id), (''amount'', amount)]
                                      (payment_obj payment) \<rparr>, s2))"

section \<open>The SumUp adapter\<close>

text \<open>
  \<open>SumUpBase\<close> (the \<open>sumup-base\<close> class; its text is the third part of
  \<open>providers/mollie/index.ts\<close>), over the \<open>SumUpClient\<close> that follows it there.
\<close>

record SumUpCheckoutResponse =
  co_id :: string
  co_checkout_reference :: string
  co_amount :: rat
  co_currency :: string
  co_status :: string
  co_merchant_code :: string
  co_transactions :: "jv list"

record SumUpCheckoutData =
  cd_amount :: rat
  cd_currency :: string
  cd_checkout_reference :: string
  cd_description :: string
  cd_merchant_code :: jv
  cd_redirect_url :: string
  cd_return_url :: string

datatype sumup_call =
    GetMerchant
  | CreateCheckout SumUpCheckoutData
  | GetCheckout jv
  | DeactivateCheckout jv

record 'w sumup_client =
  getMerchant :: "'w \<Rightarrow> (error + jv) \<times> 'w"
  createCheckout :: "'w \<Rightarrow> SumUpCheckoutData \<Rightarrow> (error + SumUpCheckoutResponse) \<times> 'w"
  getCheckout :: "'w \<Rightarrow> jv \<Rightarrow> (error + SumUpCheckoutResponse) \<times> 'w"
  deactivateCheckout :: "'w \<Rightarrow> jv \<Rightarrow> (error + SumUpCheckoutResponse) \<times> 'w"

type_synonym 'w sstate = "'w \<times> sumup_call list"



definition client_getCheckout ::
  "'w sumup_client \<Rightarrow> jv \<Rightarrow> 'w sstate \<Rightarrow> (error + SumUpCheckoutResponse) \<times> 'w sstate" where
  "client_getCheckout c i s =
     (case getCheckout c (fst s) i of (r, w') \<Rightarrow> (r, (w', snd s @ [GetCheckout i])))"

definition client_deactivateCheckout ::
  "'w sumup_client \<Rightarrow> jv \<Rightarrow> 'w sstate \<Rightarrow> (error + SumUpCheckoutResponse) \<times> 'w sstate" where
  "client_deactivateCheckout c i s =
     (case deactivateCheckout c (fst s) i of (r, w') \<Rightarrow> (r, (w', snd s @ [DeactivateCheckout i])))"

definition sumup_statusMap :: "(string \<times> PaymentSessionStatus) list" where
  "sumup_statusMap =
     [(''PENDING'', PENDING),
      (''FAILED'', ERROR),
      (''PAID'', AUTHORIZED)]"

text \<open>
  \<open>statusMap[checkout.status] || PaymentSessionStatus.PENDING\<close>: every member of the
  enumeration is a non-empty string and an inherited member is a function or an object,
  so only \<open>undefined\<close> is replaced.
\<close>

fun or_PENDING :: "status_value \<Rightarrow> status_value" where
  "or_PENDING Unmapped = Mapped PENDING"
| "or_PENDING (Mapped h) = Mapped h"
| "or_PENDING (Inherited k) = Inherited k"

definition sumup_getPaymentStatus ::
  "'w sumup_client \<Rightarrow> obj option \<Rightarrow> 'w sstate \<Rightarrow> (error + status_output) \<times> 'w sstate" where
  "sumup_getPaymentStatus c input_data s =
     (let checkoutId = data_prop input_data ''id'' in
      if \<not> truthy checkoutId then (Inr \<lparr> out_status = Mapped ERROR, out_data = None \<rparr>, s)
      else
        case client_getCheckout c checkoutId s of
          (Inl e, s') \<Rightarrow> (Inr \<lparr> out_status = Mapped ERROR, out_data = None \<rparr>, s')
        | (Inr checkout, s') \<Rightarrow>
            (Inr \<lparr> out_status = or_PENDING (index_statusMap sumup_statusMap (co_status checkout)),
                   out_data = Some (spread (spread_data input_data)
                     [(''status'', JStr (co_status checkout)),
                      (''transactions'', JArr (co_transactions checkout))]) \<rparr>, s'))"






definition sumup_authorizePayment ::
  "'w sumup_client \<Rightarrow> obj option \<Rightarrow> 'w sstate \<Rightarrow> (error + status_output) \<times> 'w sstate" where
  "sumup_authorizePayment c input_data s =
     (let checkoutId = data_prop input_data ''id'' in
      if \<not> truthy checkoutId
      then (Inl (MedusaError INVALID_DATA ''Checkout ID is required for authorization''), s)
      else
        case client_getCheckout c checkoutId s of
          (Inl e, s1) \<Rightarrow> (Inl e, s1)
        | (Inr checkout, s1) \<Rightarrow>
            if co_status checkout = ''PAID''
            then (Inr \<lparr> out_status = Mapped AUTHORIZED,
                         out_data = Some (spread (spread_data input_data)
                           [(''status'', JStr (co_status checkout)),
                            (''transactions'', JArr (co_transactions checkout))]) \<rparr>, s1)
            else if co_status checkout = ''FAILED''
            then (Inr \<lparr> out_status = Mapped ERROR,
                         out_data = Some (spread (spread_data input_data)
                           [(''status'', JStr (co_status checkout))]) \<rparr>, s1)
            else (Inr \<lparr> out_status = Mapped PENDING,
                         out_data = Some (spread (spread_data input_data)
                           [(''status'', JStr (co_status checkout))]) \<rparr>, s1))"


text \<open>
  \<open>cancelPayment\<close>: the deactivation is tried when the input has an id, and its failure
  is logged and dropped.
\<close>

definition sumup_cancelPayment ::
  "'w sumup_client \<Rightarrow> obj option \<Rightarrow> 'w sstate \<Rightarrow> (error + obj) \<times> 'w sstate" where
  "sumup_cancelPayment c input_data s =
     (let checkoutId = data_prop input_data ''id'';
          s1 = (if truthy checkoutId then snd (client_deactivateCheckout c checkoutId s) else s)
      in (Inr (spread (spread_data input_data) [(''status'', JStr ''CANCELLED'')]), s1))"

text \<open>The members of the host framework's \<open>PaymentActions\<close> that the adapter names.\<close>

definition PaymentActions_SUCCESSFUL :: string where
  "PaymentActions_SUCCESSFUL = ''captured''"

definition PaymentActions_FAILED :: string where
  "PaymentActions_FAILED = ''failed''"

definition PaymentActions_CANCELED :: string where
  "PaymentActions_CANCELED = ''canceled''"

definition PaymentActions_NOT_SUPPORTED :: string where
  "PaymentActions_NOT_SUPPORTED = ''not_supported''"

definition sumup_action :: "jv \<Rightarrow> string" where
  "sumup_action event_type =
     (if event_type = JStr ''transaction_successful'' \<or> event_type = JStr ''payment_captured''
         \<or> event_type = JStr ''checkout_paid''
      then PaymentActions_SUCCESSFUL
      else if event_type = JStr ''transaction_failed'' \<or> event_type = JStr ''payment_failed''
         \<or> event_type = JStr ''checkout_failed''
      then PaymentActions_FAILED
      else if event_type = JStr ''transaction_cancelled'' \<or> event_type = JStr ''payment_cancelled''
         \<or> event_type = JStr ''checkout_cancelled'' \<or> event_type = JStr ''checkout_expired''
      then PaymentActions_CANCELED
      else PaymentActions_NOT_SUPPORTED)"

text \<open>
  The body of the \<open>try\<close> block of \<open>getWebhookActionAndData\<close>. Every branch of the
  \<open>switch\<close> builds the same data, in the same order: \<open>data.event_type\<close>, then
  \<open>data.resource.checkout_reference || data.resource.id || ""\<close>, then
  \<open>new BigNumber(data.resource.amount || 0)\<close>. No branch calls the gateway.
\<close>

definition sumup_webhook_try :: "(jv \<Rightarrow> error + jv) \<Rightarrow> jv \<Rightarrow> error + WebhookActionResult" where
  "sumup_webhook_try BigNumber payload_data =
     (case read_member payload_data ''event_type'' of
        Inl e \<Rightarrow> Inl e
      | Inr event_type \<Rightarrow>
          case read_member payload_data ''resource'' of
            Inl e \<Rightarrow> Inl e
          | Inr resource \<Rightarrow>
              case read_member resource ''checkout_reference'' of
                Inl e \<Rightarrow> Inl e
              | Inr checkout_reference \<Rightarrow>
                  let session_id =
                        or_else (or_else checkout_reference (opt_member resource ''id'')) (JStr [])
                  in
                  case BigNumber (or_else (opt_member resource ''amount'') (JNum 0)) of
                    Inl e \<Rightarrow> Inl e
                  | Inr amount \<Rightarrow>
                      Inr \<lparr> action = sumup_action event_type,
                            data = [(''session_id'', session_id), (''amount'', amount)] \<rparr>)"

definition sumup_getWebhookActionAndData ::
  "'w sumup_client \<Rightarrow> (jv \<Rightarrow> error + jv) \<Rightarrow> jv \<Rightarrow> 'w sstate \<Rightarrow>
     (error + WebhookActionResult) \<times> 'w sstate" where
  "sumup_getWebhookActionAndData c BigNumber payload_data s =
     (case sumup_webhook_try BigNumber payload_data of
        Inr r \<Rightarrow> (Inr r, s)
      | Inl err \<Rightarrow>
          case BigNumber (JNum 0) of
            Inl e \<Rightarrow> (Inl e, s)
          | Inr zero \<Rightarrow>
              (Inr \<lparr> action = PaymentActions_FAILED,
                     data = [(''session_id'', JStr []), (''amount'', zero)] \<rparr>, s))"

section \<open>Two small gateways\<close>

text \<open>
  To run the adapters on concrete inputs: a Mollie gateway that holds a list of
  payments, and a SumUp gateway that holds a list of checkouts. A payment can be
  canceled while it is open, pending or authorized, and captured while it is
  authorized.
\<close>

definition shop_get :: "mollie_payment list \<Rightarrow> jv \<Rightarrow> error + mollie_payment" where
  "shop_get w i =
     (case find (\<lambda>p. JStr (pay_id p) = i) w of
        None \<Rightarrow> Inl (ClientError ''No payment exists with this token'')
      | Some p \<Rightarrow> Inr p)"

definition shop_set_status :: "string \<Rightarrow> string \<Rightarrow> mollie_payment list \<Rightarrow> mollie_payment list" where
  "shop_set_status i st w = map (\<lambda>p. if pay_id p = i then p\<lparr>pay_status := st\<rparr> else p) w"

definition shop_cancel ::
  "mollie_payment list \<Rightarrow> jv \<Rightarrow> (error + mollie_payment) \<times> mollie_payment list" where
  "shop_cancel w i =
     (case shop_get w i of
        Inl e \<Rightarrow> (Inl e, w)
      | Inr p \<Rightarrow>
          if pay_status p \<in> set [''open'', ''pending'', ''authorized'']
          then (Inr (p\<lparr>pay_status := ''canceled''\<rparr>), shop_set_status (pay_id p) ''canceled'' w)
          else (Inl (ClientError ''The payment cannot be canceled''), w))"

definition shop_capture ::
  "mollie_payment list \<Rightarrow> jv \<Rightarrow> (error + unit) \<times> mollie_payment list" where
  "shop_capture w i =
     (case shop_get w i of
        Inl e \<Rightarrow> (Inl e, w)
      | Inr p \<Rightarrow>
          if pay_status p = ''authorized''
          then (Inr (), shop_set_status (pay_id p) ''paid'' w)
          else (Inl (ClientError ''The payment cannot be captured''), w))"

definition shop_create ::
  "mollie_payment list \<Rightarrow> PaymentCreateParams \<Rightarrow> (error + mollie_payment) \<times> mollie_payment list" where
  "shop_create w ps =
     (let p = \<lparr> pay_id = ''tr_new'', pay_status = ''open'',
                 pay_amount = JObj [(''value'', JStr (amount_value ps)),
                                    (''currency'', JStr (amount_currency ps))],
                 pay_metadata = JObj [(''idempotency_key'', metadata_idempotency_key ps)],
                 pay_rest = [] \<rparr>
      in (Inr p, w @ [p]))"

definition shop :: "mollie_payment list mollie_client" where
  "shop = \<lparr> payments_get = (\<lambda>w i. (shop_get w i, w)), payments_create = shop_create,
            payments_cancel = shop_cancel, paymentCaptures_create = shop_capture \<rparr>"

definition a_payment :: "string \<Rightarrow> string \<Rightarrow> mollie_payment" where
  "a_payment i st =
     \<lparr> pay_id = i, pay_status = st,
       pay_amount = JObj [(''value'', JStr ''10.00''), (''currency'', JStr ''EUR'')],
       pay_metadata = JObj [(''idempotency_key'', JStr ''abc'')],
       pay_rest = [] \<rparr>"

definition till_get :: "SumUpCheckoutResponse list \<Rightarrow> jv \<Rightarrow> error + SumUpCheckoutResponse" where
  "till_get w i =
     (case find (\<lambda>c. JStr (co_id c) = i) w of
        None \<Rightarrow> Inl (MedusaError PAYMENT_AUTHORIZATION_ERROR ''SumUp API Error: Not Found'')
      | Some c \<Rightarrow> Inr c)"

definition till_deactivate ::
  "SumUpCheckoutResponse list \<Rightarrow> jv \<Rightarrow> (error + SumUpCheckoutResponse) \<times> SumUpCheckoutResponse list" where
  "till_deactivate w i =
     (case till_get w i of
        Inl e \<Rightarrow> (Inl e, w)
      | Inr c \<Rightarrow>
          if co_status c = ''PENDING''
          then (Inr (c\<lparr>co_status := ''EXPIRED''\<rparr>),
                map (\<lambda>x. if co_id x = co_id c then x\<lparr>co_status := ''EXPIRED''\<rparr> else x) w)
          else (Inl (MedusaError PAYMENT_AUTHORIZATION_ERROR ''SumUp API Error: Conflict''), w))"

definition till_create ::
  "SumUpCheckoutResponse list \<Rightarrow> SumUpCheckoutData \<Rightarrow> (error + SumUpCheckoutResponse) \<times> SumUpCheckoutResponse list" where
  "till_create w d =
     (let c = \<lparr> co_id = ''co_new'', co_checkout_reference = cd_checkout_reference d,
                 co_amount = cd_amount d, co_currency = cd_currency d, co_status = ''PENDING'',
                 co_merchant_code = (case cd_merchant_code d of JStr m \<Rightarrow> m | _ \<Rightarrow> []),
                 co_transactions = [] \<rparr>
      in (Inr c, w @ [c]))"

definition till :: "SumUpCheckoutResponse list sumup_client" where
  "till = \<lparr> getMerchant = (\<lambda>w. (Inr (JObj [(''merchant_code'', JStr ''MC123456'')]), w)),
            createCheckout = till_create, getCheckout = (\<lambda>w i. (till_get w i, w)),
            deactivateCheckout = till_deactivate \<rparr>"

definition a_checkout :: "string \<Rightarrow> string \<Rightarrow> SumUpCheckoutResponse" where
  "a_checkout i st =
     \<lparr> co_id = i, co_checkout_reference = ''medusa_1_x'', co_amount = 5, co_currency = ''EUR'',
       co_status = st, co_merchant_code = ''MC123456'', co_transactions = [] \<rparr>"

text \<open>
  A \<open>BigNumber\<close> constructor for the runs below: it keeps numbers, strings and objects and
  rejects everything else.
\<close>

fun keeping_BigNumber :: "jv \<Rightarrow> error + jv" where
  "keeping_BigNumber (JNum n) = Inr (JNum n)"
| "keeping_BigNumber (JStr t) = Inr (JStr t)"
| "keeping_BigNumber (JObj m) = Inr (JObj m)"
| "keeping_BigNumber v = Inl (ClientError ''Invalid BigNumber value'')"

text \<open>Options that leave every optional field out, and a paid-checkout webhook body.\<close>

definition plain_mollie_options :: mollie_options where
  "plain_mollie_options =
     \<lparr> mo_apiKey = ''test_key'', mo_redirectUrl = ''https://shop.example/done'',
       mo_medusaUrl = ''https://backend.example'', mo_autoCapture = None,
       mo_description = None, mo_debug = None \<rparr>"


definition an_input :: "string \<Rightarrow> rat InitiatePaymentInput" where
  "an_input key =
     \<lparr> ip_context = JObj [(''idempotency_key'', JStr key)], ip_amount = 10,
       ip_currency_code = ''EUR'' \<rparr>"

definition paid_webhook :: jv where
  "paid_webhook =
     JObj [(''event_type'', JStr ''checkout_paid''),
           (''resource'', JObj [(''id'', JStr ''co_1''), (''status'', JStr ''PAID''),
                                (''amount'', JNum 10)])]"

section \<open>Counting what is asked of the gateway\<close>




section \<open>Facts used to run the adapters\<close>

lemmas shop_defs = shop_def shop_get_def shop_cancel_def shop_capture_def shop_create_def
  shop_set_status_def a_payment_def

lemmas till_defs = till_def till_get_def till_deactivate_def till_create_def a_checkout_def

section \<open>Status mapping\<close>

text \<open>
  Claim C1, as amended. When the gateway answers the fetch, \<open>getPaymentStatus\<close> returns
  and does not throw, in both adapters. The Mollie adapter maps each of the seven Mollie
  statuses to a member of the host set (\<open>open\<close> to \<open>REQUIRES_MORE\<close>, \<open>canceled\<close> to
  \<open>CANCELED\<close>, \<open>pending\<close> to \<open>PENDING\<close>, \<open>authorized\<close> to \<open>AUTHORIZED\<close>, \<open>expired\<close> and
  \<open>failed\<close> to \<open>ERROR\<close>, \<open>paid\<close> to \<open>CAPTURED\<close>); for any other status its table has no
  entry and the returned status is \<open>undefined\<close>, not \<open>ERROR\<close>. The SumUp adapter maps
  \<open>PENDING\<close> to \<open>PENDING\<close>, \<open>FAILED\<close> to \<open>ERROR\<close> and \<open>PAID\<close> to \<open>AUTHORIZED\<close>, and any
  other status to \<open>PENDING\<close>, not \<open>ERROR\<close>. (A status that names a member of
  \<open>Object.prototype\<close> yields that member in both.)
\<close>

theorem getPaymentStatus_status_table:
  "(payments_get c (fst s) (data_prop d ''id'') = (Inr p, w) \<longrightarrow>
      fst (mollie_getPaymentStatus c d s) =
        Inr \<lparr> out_status =
                (if pay_status p = ''open'' then Mapped REQUIRES_MORE
                 else if pay_status p = ''canceled'' then Mapped CANCELED
                 else if pay_status p = ''pending'' then Mapped PENDING
                 else if pay_status p = ''authorized'' then Mapped AUTHORIZED
                 else if pay_status p = ''expired'' then Mapped ERROR
                 else if pay_status p = ''failed'' then Mapped ERROR
                 else if pay_status p = ''paid'' then Mapped CAPTURED
                 else if pay_status p \<in> set object_prototype_keys
                 then Inherited (pay_status p)
                 else Unmapped),
              out_data = None \<rparr>)
   \<and> (truthy (data_prop d' ''id'')
        \<and> getCheckout c' (fst s') (data_prop d' ''id'') = (Inr co, w') \<longrightarrow>
      map_sum id out_status (fst (sumup_getPaymentStatus c' d' s')) =
        Inr (if co_status co = ''PENDING'' then Mapped PENDING
             else if co_status co = ''FAILED'' then Mapped ERROR
             else if co_status co = ''PAID'' then Mapped AUTHORIZED
             else if co_status co \<in> set object_prototype_keys
             then Inherited (co_status co)
             else Mapped PENDING))"
  by (simp add: Let_def mollie_getPaymentStatus_def sumup_getPaymentStatus_def client_get_def
        client_getCheckout_def index_statusMap_def mollie_statusMap_def sumup_statusMap_def)

text \<open>A paid Mollie payment is \<open>CAPTURED\<close>; a paid SumUp checkout is \<open>AUTHORIZED\<close>.\<close>

theorem getPaymentStatus_status_table_witness:
  "payments_get shop [a_payment ''tr_1'' ''paid''] (data_prop (Some [(''id'', JStr ''tr_1'')]) ''id'')
     = (Inr (a_payment ''tr_1'' ''paid''), [a_payment ''tr_1'' ''paid''])
   \<and> fst (mollie_getPaymentStatus shop (Some [(''id'', JStr ''tr_1'')])
            ([a_payment ''tr_1'' ''paid''], []))
     = Inr \<lparr> out_status = Mapped CAPTURED, out_data = None \<rparr>
   \<and> truthy (data_prop (Some [(''id'', JStr ''co_1'')]) ''id'')
   \<and> getCheckout till [a_checkout ''co_1'' ''PAID''] (data_prop (Some [(''id'', JStr ''co_1'')]) ''id'')
     = (Inr (a_checkout ''co_1'' ''PAID''), [a_checkout ''co_1'' ''PAID''])
   \<and> map_sum id out_status
        (fst (sumup_getPaymentStatus till (Some [(''id'', JStr ''co_1'')])
                ([a_checkout ''co_1'' ''PAID''], [])))
     = Inr (Mapped AUTHORIZED)"
  using getPaymentStatus_status_table
    [of shop "([a_payment ''tr_1'' ''paid''], [])" "Some [(''id'', JStr ''tr_1'')]"
        "a_payment ''tr_1'' ''paid''" "[a_payment ''tr_1'' ''paid'']"
        "Some [(''id'', JStr ''co_1'')]" till "([a_checkout ''co_1'' ''PAID''], [])"
        "a_checkout ''co_1'' ''PAID''" "[a_checkout ''co_1'' ''PAID'']"]
  by (simp add: shop_defs till_defs data_prop_def get_prop_def)

text \<open>
  The claim as first stated fails: a SumUp checkout in the status \<open>EXPIRED\<close>, which the
  SumUp client declares, is reported \<open>PENDING\<close>, and a Mollie payment in a status outside
  the table is reported with no status at all.
\<close>

theorem getPaymentStatus_unknown_status_counterexample:
  "map_sum id out_status
     (fst (sumup_getPaymentStatus till (Some [(''id'', JStr ''co_1'')])
             ([a_checkout ''co_1'' ''EXPIRED''], [])))
     = Inr (Mapped PENDING)
   \<and> Mapped PENDING \<noteq> Mapped ERROR
   \<and> map_sum id out_status
        (fst (mollie_getPaymentStatus shop (Some [(''id'', JStr ''tr_1'')])
                ([a_payment ''tr_1'' ''chargeback''], [])))
     = Inr Unmapped
   \<and> Unmapped \<noteq> Mapped ERROR"
  by (simp add: Let_def sumup_getPaymentStatus_def mollie_getPaymentStatus_def
        client_getCheckout_def client_get_def till_defs shop_defs data_prop_def get_prop_def
        index_statusMap_def sumup_statusMap_def mollie_statusMap_def object_prototype_keys_def)

section \<open>Reading the status when the fetch fails\<close>

text \<open>
  Claim C6, as amended. When the gateway fetch fails, the SumUp adapter's
  \<open>getPaymentStatus\<close> returns the status \<open>ERROR\<close> (as it does when the input has no id),
  and it never throws; the Mollie adapter's \<open>getPaymentStatus\<close> logs the error and
  throws it again.
\<close>

theorem getPaymentStatus_on_fetch_failure:
  "(payments_get c (fst s) (data_prop d ''id'') = (Inl e, w) \<longrightarrow>
      fst (mollie_getPaymentStatus c d s) = Inl e)
   \<and> (\<not> truthy (data_prop d' ''id'')
        \<or> getCheckout c' (fst s') (data_prop d' ''id'') = (Inl e', w') \<longrightarrow>
      fst (sumup_getPaymentStatus c' d' s') = Inr \<lparr> out_status = Mapped ERROR, out_data = None \<rparr>)
   \<and> (\<exists>out. fst (sumup_getPaymentStatus c' d' s') = Inr out)"
  by (auto simp add: Let_def mollie_getPaymentStatus_def sumup_getPaymentStatus_def client_get_def
        client_getCheckout_def split: prod.splits sum.splits)

text \<open>A payment and a checkout that the gateways do not know.\<close>

theorem getPaymentStatus_on_fetch_failure_witness:
  "payments_get shop [] (data_prop (Some [(''id'', JStr ''tr_9'')]) ''id'')
     = (Inl (ClientError ''No payment exists with this token''), [])
   \<and> fst (mollie_getPaymentStatus shop (Some [(''id'', JStr ''tr_9'')]) ([], []))
     = Inl (ClientError ''No payment exists with this token'')
   \<and> getCheckout till [] (data_prop (Some [(''id'', JStr ''co_9'')]) ''id'')
     = (Inl (MedusaError PAYMENT_AUTHORIZATION_ERROR ''SumUp API Error: Not Found''), [])
   \<and> fst (sumup_getPaymentStatus till (Some [(''id'', JStr ''co_9'')]) ([], []))
     = Inr \<lparr> out_status = Mapped ERROR, out_data = None \<rparr>"
  using getPaymentStatus_on_fetch_failure
    [of shop "([], [])" "Some [(''id'', JStr ''tr_9'')]"
        "ClientError ''No payment exists with this token''" "[]"
        "Some [(''id'', JStr ''co_9'')]" till "([], [])"
        "MedusaError PAYMENT_AUTHORIZATION_ERROR ''SumUp API Error: Not Found''" "[]"]
  by (simp add: shop_defs till_defs data_prop_def get_prop_def)

text \<open>
  The claim as first stated fails for the Mollie adapter: for a payment the gateway does
  not know, \<open>getPaymentStatus\<close> throws the gateway's error instead of returning \<open>ERROR\<close>.
\<close>

theorem mollie_getPaymentStatus_throws_counterexample:
  "fst (mollie_getPaymentStatus shop (Some [(''id'', JStr ''tr_9'')]) ([], []))
     = Inl (ClientError ''No payment exists with this token'')
   \<and> fst (mollie_getPaymentStatus shop (Some [(''id'', JStr ''tr_9'')]) ([], []))
     \<noteq> Inr \<lparr> out_status = Mapped ERROR, out_data = None \<rparr>"
  by (simp add: Let_def mollie_getPaymentStatus_def client_get_def shop_defs data_prop_def get_prop_def)

section \<open>Facts about objects and the status read\<close>

lemma map_of_spread: "map_of (spread a b) = map_of a ++ map_of (rev b)"
  unfolding spread_def
proof (induction b arbitrary: a)
  case Nil
  then show ?case by simp
next
  case (Cons x b)
  obtain k v where x: "x = (k, v)" by (cases x)
  have "map_of (fold (\<lambda>(k, v). AList.update k v) (x # b) a)
          = (map_of a)(k \<mapsto> v) ++ map_of (rev b)"
    by (simp only: x fold.simps o_apply prod.case Cons.IH update_conv')
  also have "\<dots> = map_of a ++ ([k \<mapsto> v] ++ map_of (rev b))"
    by (rule ext) (simp add: map_add_def split: option.splits)
  also have "\<dots> = map_of a ++ map_of (rev (x # b))"
    by (simp add: x)
  finally show ?case .
qed

lemma get_prop_spread_one:
  "get_prop (spread a [(k', v)]) k = (if k = k' then v else get_prop a k)"
  by (simp add: get_prop_def map_of_spread)

lemma get_prop_spread_data: "get_prop (spread_data d) k = data_prop d k"
  by (simp add: spread_data_def data_prop_def get_prop_def split: option.splits)

lemma status_is_includes:
  "(status_is st ''captured'' \<or> status_is st ''authorized'' \<or> status_is st ''paid'')
     = (st = Mapped CAPTURED \<or> st = Mapped AUTHORIZED)"
proof (cases st)
  case (Mapped h)
  then show ?thesis by (cases h) simp_all
qed simp_all

lemma mollie_getPaymentStatus_ok:
  "payments_get c (fst s) i = (Inr p, w) \<Longrightarrow>
   mollie_getPaymentStatus c (Some [(''id'', i)]) s =
     (Inr \<lparr> out_status = index_statusMap mollie_statusMap (pay_status p), out_data = None \<rparr>,
      (w, snd s @ [PaymentsGet i]))"
  by (simp add: mollie_getPaymentStatus_def client_get_def data_prop_def get_prop_def)


section \<open>Capture mode of the create request\<close>

text \<open>
  Claim C3. The Mollie adapter's constructor stores the options as given, and
  \<open>initiatePayment\<close> sends exactly one create request, whose capture mode is
  \<open>automatic\<close> only when \<open>autoCapture\<close> is \<open>true\<close>: it is \<open>manual\<close> when \<open>autoCapture\<close> is
  \<open>false\<close>, and also when the option is omitted, although the options' documentation
  gives \<open>true\<close> as the default.
\<close>

theorem mollie_initiatePayment_captureMode:
  "\<exists>ps. snd (snd (mollie_initiatePayment (mollie_constructor NODE_ENV options) c toFixed2 inp s))
           = snd s @ [PaymentsCreate ps]
        \<and> captureMode ps =
            (case mo_autoCapture options of
               None \<Rightarrow> manual
             | Some b \<Rightarrow> if b then automatic else manual)"
proof -
  let ?svc = "mollie_constructor NODE_ENV options"
  let ?ps = "mollie_createParams ?svc toFixed2 inp"
  have cm: "captureMode ?ps =
      (case mo_autoCapture options of None \<Rightarrow> manual | Some b \<Rightarrow> if b then automatic else manual)"
    by (simp add: mollie_createParams_def mollie_constructor_def Let_def split: option.splits)
  obtain r w' where pc: "payments_create c (fst s) ?ps = (r, w')"
    by (cases "payments_create c (fst s) ?ps")
  have "snd (snd (mollie_initiatePayment ?svc c toFixed2 inp s)) = snd s @ [PaymentsCreate ?ps]"
    by (cases r) (simp_all add: mollie_initiatePayment_def client_create_def pc)
  with cm show ?thesis by blast
qed

text \<open>With \<open>autoCapture\<close> left out of the options, the request asks for manual capture.\<close>

theorem mollie_initiatePayment_captureMode_witness:
  "mo_autoCapture plain_mollie_options = None
   \<and> (\<exists>ps. snd (snd (mollie_initiatePayment (mollie_constructor ''production'' plain_mollie_options)
                       shop (\<lambda>a. ''10.00'') (an_input ''abc'') ([], [])))
              = [PaymentsCreate ps]
           \<and> captureMode ps = manual)"
  using mollie_initiatePayment_captureMode
    [of "''production''" plain_mollie_options shop "\<lambda>a. ''10.00''" "an_input ''abc''" "([], [])"]
  by (simp add: plain_mollie_options_def)

section \<open>Authorization\<close>

lemma mollie_authorize_fetched:
  assumes "truthy (data_prop d ''id'')"
    and "payments_get c (fst s) (data_prop d ''id'') = (Inr p, w)"
  shows "fst (mollie_authorizePayment c d s) =
        (if index_statusMap mollie_statusMap (pay_status p) = Mapped AUTHORIZED
            \<or> index_statusMap mollie_statusMap (pay_status p) = Mapped CAPTURED
         then Inr \<lparr> out_status = index_statusMap mollie_statusMap (pay_status p), out_data = d \<rparr>
         else Inl (MedusaError INVALID_DATA
                (''Payment is not authorized: current status is ''
                   @ status_text (index_statusMap mollie_statusMap (pay_status p)))))"
proof -
  have "(status_is (index_statusMap mollie_statusMap (pay_status p)) ''captured''
          \<or> status_is (index_statusMap mollie_statusMap (pay_status p)) ''authorized''
          \<or> status_is (index_statusMap mollie_statusMap (pay_status p)) ''paid'')
        = (index_statusMap mollie_statusMap (pay_status p) = Mapped AUTHORIZED
            \<or> index_statusMap mollie_statusMap (pay_status p) = Mapped CAPTURED)"
    using status_is_includes [of "index_statusMap mollie_statusMap (pay_status p)"] by blast
  then show ?thesis
    using assms
    by (simp add: mollie_authorizePayment_def Let_def mollie_getPaymentStatus_ok
          del: status_is.simps)
qed

lemma sumup_authorize_fetched:
  assumes "truthy (data_prop d' ''id'')"
    and "getCheckout c' (fst s') (data_prop d' ''id'') = (Inr co, w')"
  shows "map_sum id out_status (fst (sumup_authorizePayment c' d' s')) =
        Inr (if co_status co = ''PAID'' then Mapped AUTHORIZED
             else if co_status co = ''FAILED'' then Mapped ERROR
             else Mapped PENDING)"
  using assms by (simp add: sumup_authorizePayment_def Let_def client_getCheckout_def)

text \<open>
  Claim C4, as amended. For a payment the gateway returns, the Mollie adapter's
  \<open>authorizePayment\<close> returns successfully if and only if the mapped status is
  \<open>AUTHORIZED\<close> or \<open>CAPTURED\<close>, and otherwise fails with an \<open>INVALID_DATA\<close> error whose
  message ends in the current mapped status. The SumUp adapter's \<open>authorizePayment\<close>
  never fails on the status: it returns \<open>AUTHORIZED\<close> for a \<open>PAID\<close> checkout, \<open>ERROR\<close> for
  a \<open>FAILED\<close> one and \<open>PENDING\<close> for any other.
\<close>

theorem authorizePayment_by_status:
  "(truthy (data_prop d ''id'')
      \<and> payments_get c (fst s) (data_prop d ''id'') = (Inr p, w) \<longrightarrow>
      fst (mollie_authorizePayment c d s) =
        (if index_statusMap mollie_statusMap (pay_status p) = Mapped AUTHORIZED
            \<or> index_statusMap mollie_statusMap (pay_status p) = Mapped CAPTURED
         then Inr \<lparr> out_status = index_statusMap mollie_statusMap (pay_status p), out_data = d \<rparr>
         else Inl (MedusaError INVALID_DATA
                (''Payment is not authorized: current status is ''
                   @ status_text (index_statusMap mollie_statusMap (pay_status p))))))
   \<and> (truthy (data_prop d' ''id'')
        \<and> getCheckout c' (fst s') (data_prop d' ''id'') = (Inr co, w') \<longrightarrow>
      map_sum id out_status (fst (sumup_authorizePayment c' d' s')) =
        Inr (if co_status co = ''PAID'' then Mapped AUTHORIZED
             else if co_status co = ''FAILED'' then Mapped ERROR
             else Mapped PENDING))"
  using mollie_authorize_fetched [of d c s p w] sumup_authorize_fetched [of d' c' s' co w']
  by blast

text \<open>
  An open Mollie payment is refused, the message naming \<open>requires_more\<close>; a paid SumUp
  checkout is authorized.
\<close>

theorem authorizePayment_by_status_witness:
  "truthy (data_prop (Some [(''id'', JStr ''tr_1'')]) ''id'')
   \<and> payments_get shop [a_payment ''tr_1'' ''open''] (data_prop (Some [(''id'', JStr ''tr_1'')]) ''id'')
       = (Inr (a_payment ''tr_1'' ''open''), [a_payment ''tr_1'' ''open''])
   \<and> fst (mollie_authorizePayment shop (Some [(''id'', JStr ''tr_1'')])
            ([a_payment ''tr_1'' ''open''], []))
       = Inl (MedusaError INVALID_DATA
                ''Payment is not authorized: current status is requires_more'')
   \<and> truthy (data_prop (Some [(''id'', JStr ''co_1'')]) ''id'')
   \<and> getCheckout till [a_checkout ''co_1'' ''PAID''] (data_prop (Some [(''id'', JStr ''co_1'')]) ''id'')
       = (Inr (a_checkout ''co_1'' ''PAID''), [a_checkout ''co_1'' ''PAID''])
   \<and> map_sum id out_status
        (fst (sumup_authorizePayment till (Some [(''id'', JStr ''co_1'')])
                ([a_checkout ''co_1'' ''PAID''], [])))
       = Inr (Mapped AUTHORIZED)"
  using authorizePayment_by_status
    [of "Some [(''id'', JStr ''tr_1'')]" shop "([a_payment ''tr_1'' ''open''], [])"
        "a_payment ''tr_1'' ''open''" "[a_payment ''tr_1'' ''open'']"
        "Some [(''id'', JStr ''co_1'')]" till "([a_checkout ''co_1'' ''PAID''], [])"
        "a_checkout ''co_1'' ''PAID''" "[a_checkout ''co_1'' ''PAID'']"]
  by (simp add: shop_defs till_defs data_prop_def get_prop_def index_statusMap_def
        mollie_statusMap_def)

text \<open>
  The claim as first stated fails for the SumUp adapter: for a \<open>FAILED\<close> checkout, whose
  status is neither \<open>AUTHORIZED\<close> nor \<open>CAPTURED\<close>, \<open>authorizePayment\<close> returns successfully,
  with the status \<open>ERROR\<close>.
\<close>

theorem sumup_authorizePayment_failed_counterexample:
  "fst (sumup_authorizePayment till (Some [(''id'', JStr ''co_1'')])
          ([a_checkout ''co_1'' ''FAILED''], []))
     = Inr \<lparr> out_status = Mapped ERROR,
             out_data = Some [(''id'', JStr ''co_1''), (''status'', JStr ''FAILED'')] \<rparr>"
  by (simp add: Let_def sumup_authorizePayment_def client_getCheckout_def till_defs
        data_prop_def get_prop_def spread_def spread_data_def)

section \<open>The SumUp webhook handler and cancellation\<close>

text \<open>
  Claim C9. Provided the framework's \<open>BigNumber\<close> accepts the number \<open>0\<close>, the SumUp
  adapter's \<open>getWebhookActionAndData\<close> returns a result for every payload and never
  throws; whenever the body of its \<open>try\<close> block throws (a payload without data or
  without a resource, an amount \<open>BigNumber\<close> rejects), the result is the action \<open>failed\<close>
  with the session id \<open>""\<close> and the amount \<open>BigNumber(0)\<close>.
\<close>

theorem sumup_webhook_total:
  assumes "BigNumber (JNum 0) = Inr zero"
  shows "(\<exists>r. fst (sumup_getWebhookActionAndData c BigNumber payload_data s) = Inr r)
    \<and> (\<forall>e. sumup_webhook_try BigNumber payload_data = Inl e \<longrightarrow>
          fst (sumup_getWebhookActionAndData c BigNumber payload_data s) =
            Inr \<lparr> action = ''failed'',
                  data = [(''session_id'', JStr ''''), (''amount'', zero)] \<rparr>)"
  using assms
  by (auto simp add: sumup_getWebhookActionAndData_def PaymentActions_FAILED_def split: sum.splits)

text \<open>A payload with an event type and no resource: the \<open>try\<close> block throws, the handler answers.\<close>

theorem sumup_webhook_total_witness:
  "keeping_BigNumber (JNum 0) = Inr (JNum 0)
   \<and> sumup_webhook_try keeping_BigNumber (JObj [(''event_type'', JStr ''checkout_paid'')])
       = Inl (TypeError ''Cannot read properties of undefined (reading checkout_reference)'')
   \<and> fst (sumup_getWebhookActionAndData till keeping_BigNumber
             (JObj [(''event_type'', JStr ''checkout_paid'')]) ([], []))
       = Inr \<lparr> action = ''failed'', data = [(''session_id'', JStr ''''), (''amount'', JNum 0)] \<rparr>"
proof -
  have z: "keeping_BigNumber (JNum 0) = Inr (JNum 0)" by simp
  have t: "sumup_webhook_try keeping_BigNumber (JObj [(''event_type'', JStr ''checkout_paid'')])
       = Inl (TypeError ''Cannot read properties of undefined (reading checkout_reference)'')"
    by (simp add: sumup_webhook_try_def read_member_def get_prop_def)
  from sumup_webhook_total
         [where BigNumber = keeping_BigNumber and zero = "JNum 0" and c = till
            and payload_data = "JObj [(''event_type'', JStr ''checkout_paid'')]"
            and s = "([], [])", OF z] t z
  show ?thesis by simp
qed

text \<open>
  Claim C10. The SumUp adapter's \<open>cancelPayment\<close> returns successfully for every input
  data, gateway and gateway state: the returned data has the status \<open>CANCELLED\<close> and
  every other field as the input data has it, whether or not the input has an id and
  whatever the deactivation call answers.
\<close>

theorem sumup_cancelPayment_always_succeeds:
  "\<exists>r. fst (sumup_cancelPayment c d s) = Inr r
       \<and> get_prop r ''status'' = JStr ''CANCELLED''
       \<and> (\<forall>k. k \<noteq> ''status'' \<longrightarrow> get_prop r k = data_prop d k)"
  by (simp add: sumup_cancelPayment_def Let_def get_prop_spread_one get_prop_spread_data)

text \<open>A checkout the gateway holds as \<open>PAID\<close>: the deactivation is refused, the cancel succeeds.\<close>

theorem sumup_cancelPayment_always_succeeds_witness:
  "''id'' \<noteq> ''status''
   \<and> (\<exists>r. fst (sumup_cancelPayment till (Some [(''id'', JStr ''co_1''), (''status'', JStr ''PAID'')])
               ([a_checkout ''co_1'' ''PAID''], [])) = Inr r
          \<and> get_prop r ''status'' = JStr ''CANCELLED''
          \<and> get_prop r ''id'' = JStr ''co_1'')
   \<and> fst (deactivateCheckout till [a_checkout ''co_1'' ''PAID''] (JStr ''co_1''))
       = Inl (MedusaError PAYMENT_AUTHORIZATION_ERROR ''SumUp API Error: Conflict'')"
  using sumup_cancelPayment_always_succeeds
    [of till "Some [(''id'', JStr ''co_1''), (''status'', JStr ''PAID'')]"
        "([a_checkout ''co_1'' ''PAID''], [])"]
  by (auto simp add: data_prop_def get_prop_def till_defs)

section \<open>Idempotency key in the create request\<close>






section \<open>Cancelling a Mollie payment\<close>

lemma mollie_cancel_expired:
  assumes "payments_get c (fst s) (get_prop d ''id'') = (Inr p, w)"
    and "pay_status p = ''expired''"
  shows "mollie_cancelPayment c (Some d) s =
           (Inr [(''id'', get_prop d ''id'')], (w, snd s @ [PaymentsGet (get_prop d ''id'')]))"
  using assms by (simp add: mollie_cancelPayment_def Let_def client_get_def data_prop_def)

lemma mollie_cancel_other:
  assumes "payments_get c (fst s) (get_prop d ''id'') = (Inr p, w)"
    and "pay_status p \<noteq> ''expired''"
    and "payments_cancel c w (get_prop d ''id'') = (r, w')"
  shows "mollie_cancelPayment c (Some d) s =
           (Inr (case r of Inl e \<Rightarrow> [(''data'', JObj (payment_obj p))]
                         | Inr newPayment \<Rightarrow> payment_obj newPayment),
            (w', snd s @ [PaymentsGet (get_prop d ''id''), PaymentsCancel (get_prop d ''id'')]))"
  using assms
  by (cases r) (simp_all add: mollie_cancelPayment_def Let_def client_get_def client_cancel_def)

text \<open>
  Claim C7, as amended. When the gateway returns the payment, the Mollie adapter's
  \<open>cancelPayment\<close> succeeds. For a payment in the status \<open>expired\<close> it issues no cancel
  call and returns data holding only the input's id. For a payment in any other status,
  \<open>failed\<close> included, it issues one cancel call; when that call fails it returns the
  payment as fetched before the call, under the key \<open>data\<close>, and when it succeeds it
  returns the gateway's answer.
\<close>

theorem mollie_cancelPayment_by_status:
  "payments_get c (fst s) (get_prop d ''id'') = (Inr p, w) \<longrightarrow>
     (pay_status p = ''expired'' \<longrightarrow>
        mollie_cancelPayment c (Some d) s =
          (Inr [(''id'', get_prop d ''id'')], (w, snd s @ [PaymentsGet (get_prop d ''id'')])))
     \<and> (pay_status p \<noteq> ''expired'' \<and> payments_cancel c w (get_prop d ''id'') = (r, w') \<longrightarrow>
        mollie_cancelPayment c (Some d) s =
          (Inr (case r of Inl e \<Rightarrow> [(''data'', JObj (payment_obj p))]
                        | Inr newPayment \<Rightarrow> payment_obj newPayment),
           (w', snd s @ [PaymentsGet (get_prop d ''id''), PaymentsCancel (get_prop d ''id'')])))"
  using mollie_cancel_expired [of c s d p w] mollie_cancel_other [of c s d p w r w'] by blast

text \<open>
  An expired payment: one fetch, no cancel call, the id returned.
\<close>

theorem mollie_cancelPayment_by_status_witness:
  "payments_get shop [a_payment ''tr_1'' ''expired''] (get_prop [(''id'', JStr ''tr_1'')] ''id'')
     = (Inr (a_payment ''tr_1'' ''expired''), [a_payment ''tr_1'' ''expired''])
   \<and> pay_status (a_payment ''tr_1'' ''expired'') = ''expired''
   \<and> mollie_cancelPayment shop (Some [(''id'', JStr ''tr_1'')]) ([a_payment ''tr_1'' ''expired''], [])
       = (Inr [(''id'', JStr ''tr_1'')], ([a_payment ''tr_1'' ''expired''], [PaymentsGet (JStr ''tr_1'')]))"
  using mollie_cancelPayment_by_status
    [of shop "([a_payment ''tr_1'' ''expired''], [])" "[(''id'', JStr ''tr_1'')]"
        "a_payment ''tr_1'' ''expired''" "[a_payment ''tr_1'' ''expired'']"]
  by (simp add: shop_defs get_prop_def)

text \<open>
  The claim as first stated fails for a payment in the status \<open>failed\<close>: the adapter
  does issue a cancel call, which this gateway refuses.
\<close>

theorem mollie_cancelPayment_failed_counterexample:
  "mollie_cancelPayment shop (Some [(''id'', JStr ''tr_1'')]) ([a_payment ''tr_1'' ''failed''], [])
     = (Inr [(''data'',
              JObj [(''id'', JStr ''tr_1''), (''status'', JStr ''failed''),
                    (''amount'', JObj [(''value'', JStr ''10.00''), (''currency'', JStr ''EUR'')]),
                    (''metadata'', JObj [(''idempotency_key'', JStr ''abc'')])])],
        ([a_payment ''tr_1'' ''failed''],
         [PaymentsGet (JStr ''tr_1''), PaymentsCancel (JStr ''tr_1'')]))"
  by (simp add: mollie_cancelPayment_def Let_def client_get_def client_cancel_def shop_defs
        get_prop_def payment_obj_def spread_def)

section \<open>Where the webhook handlers take their answer from\<close>

lemma mollie_webhook_try_log:
  assumes "read_member pd ''id'' = Inr ident"
  shows "\<exists>r w. mollie_webhook_try c bn pd s = (r, (w, snd s @ [PaymentsGet ident]))"
proof -
  obtain r w where g: "payments_get c (fst s) ident = (r, w)"
    by (cases "payments_get c (fst s) ident")
  show ?thesis
  proof (cases r)
    case (Inl e)
    then show ?thesis
      using assms g
      by (simp add: mollie_webhook_try_def mollie_retrievePayment_def client_get_def
            data_prop_def get_prop_def)
  next
    case (Inr p)
    then show ?thesis
      using assms g
      by (cases "bn (pay_amount p)")
        (simp_all add: mollie_webhook_try_def mollie_retrievePayment_def client_get_def
            data_prop_def get_prop_def Let_def)
  qed
qed

lemma mollie_webhook_handler_log:
  "\<exists>rest. snd (snd (case read_member pd ''id'' of
            Inl e \<Rightarrow> (Inl e, (w, l))
          | Inr ident \<Rightarrow>
              case mollie_retrievePayment c (Some [(''id'', ident)]) (w, l) of
                (Inl e, s2) \<Rightarrow> (Inl err, s2)
              | (Inr payment, s2) \<Rightarrow>
                  let session_id = opt_member (pay_metadata payment) ''session_id'' in
                  case bn (pay_amount payment) of
                    Inl e \<Rightarrow> (Inl e, s2)
                  | Inr amount \<Rightarrow>
                      (Inr \<lparr> action = ''failed'',
                             data = spread [(''session_id'', session_id), (''amount'', amount)]
                                      (payment_obj payment) \<rparr>, s2))) = l @ rest"
  by (auto simp add: mollie_retrievePayment_def client_get_def Let_def
        split: sum.splits prod.splits)

lemma mollie_webhook_first_call:
  assumes "read_member pd ''id'' = Inr ident"
  shows "\<exists>rest. snd (snd (mollie_getWebhookActionAndData c bn pd s))
            = snd s @ PaymentsGet ident # rest"
proof -
  from mollie_webhook_try_log [OF assms, of c bn s]
  obtain r w where t: "mollie_webhook_try c bn pd s = (r, (w, snd s @ [PaymentsGet ident]))"
    by blast
  show ?thesis
  proof (cases r)
    case (Inr res)
    then show ?thesis using t by (simp add: mollie_getWebhookActionAndData_def)
  next
    case (Inl err)
    from mollie_webhook_handler_log
           [where pd = pd and w = w and l = "snd s @ [PaymentsGet ident]" and c = c
              and err = err and bn = bn]
    obtain rest where "snd (snd (case read_member pd ''id'' of
            Inl e \<Rightarrow> (Inl e, (w, snd s @ [PaymentsGet ident]))
          | Inr ident' \<Rightarrow>
              case mollie_retrievePayment c (Some [(''id'', ident')]) (w, snd s @ [PaymentsGet ident]) of
                (Inl e, s2) \<Rightarrow> (Inl err, s2)
              | (Inr payment, s2) \<Rightarrow>
                  let session_id = opt_member (pay_metadata payment) ''session_id'' in
                  case bn (pay_amount payment) of
                    Inl e \<Rightarrow> (Inl e, s2)
                  | Inr amount \<Rightarrow>
                      (Inr \<lparr> action = ''failed'',
                             data = spread [(''session_id'', session_id), (''amount'', amount)]
                                      (payment_obj payment) \<rparr>, s2)))
         = (snd s @ [PaymentsGet ident]) @ rest"
      by blast
    then show ?thesis
      using t Inl by (simp add: mollie_getWebhookActionAndData_def)
  qed
qed

lemma mollie_webhook_fetched:
  assumes "read_member pd ''id'' = Inr ident"
    and "payments_get c (fst s) ident = (Inr p, w)"
    and "bn (pay_amount p) = Inr a"
  shows "mollie_getWebhookActionAndData c bn pd s =
           (Inr \<lparr> action = mollie_action (pay_status p),
                  data = spread [(''amount'', a),
                                 (''session_id'', opt_member (pay_metadata p) ''idempotency_key'')]
                           (payment_obj p) \<rparr>,
            (w, snd s @ [PaymentsGet ident]))"
  using assms
  by (simp add: mollie_getWebhookActionAndData_def mollie_webhook_try_def
        mollie_retrievePayment_def client_get_def data_prop_def get_prop_def Let_def)

lemma mollie_webhook_reads_id_only:
  assumes "read_member pd ''id'' = read_member pd' ''id''"
  shows "mollie_getWebhookActionAndData c bn pd s = mollie_getWebhookActionAndData c bn pd' s"
  by (simp only: mollie_getWebhookActionAndData_def mollie_webhook_try_def assms)

lemma sumup_webhook_no_call:
  "sumup_getWebhookActionAndData c bn pd s = (fst (sumup_getWebhookActionAndData c' bn pd s'), s)"
  by (simp add: sumup_getWebhookActionAndData_def split: sum.splits)

text \<open>
  Claim C2, as amended. For a payload whose data can be read, the first gateway call of
  the Mollie adapter's \<open>getWebhookActionAndData\<close> fetches the payment by the id in the
  payload; when the fetch succeeds and \<open>BigNumber\<close> accepts the amount, the action comes
  from the fetched status and the data from the fetched payment; and the result depends
  on the payload only through that id. The SumUp adapter's \<open>getWebhookActionAndData\<close>
  calls no gateway operation: it leaves the gateway state and the call log as they
  were, and its result is the same for every gateway, so both action and data come from
  the webhook body.
\<close>

theorem getWebhookActionAndData_source:
  "(read_member pd ''id'' = Inr ident \<longrightarrow>
      (\<exists>rest. snd (snd (mollie_getWebhookActionAndData c bn pd s))
                 = snd s @ PaymentsGet ident # rest))
   \<and> (read_member pd ''id'' = Inr ident \<and> payments_get c (fst s) ident = (Inr p, w)
        \<and> bn (pay_amount p) = Inr a \<longrightarrow>
      mollie_getWebhookActionAndData c bn pd s =
        (Inr \<lparr> action = mollie_action (pay_status p),
               data = spread [(''amount'', a),
                              (''session_id'', opt_member (pay_metadata p) ''idempotency_key'')]
                        (payment_obj p) \<rparr>,
         (w, snd s @ [PaymentsGet ident])))
   \<and> (read_member pd ''id'' = read_member pd' ''id'' \<longrightarrow>
      mollie_getWebhookActionAndData c bn pd s = mollie_getWebhookActionAndData c bn pd' s)
   \<and> sumup_getWebhookActionAndData k bn body t
       = (fst (sumup_getWebhookActionAndData k' bn body t'), t)"
  using mollie_webhook_first_call [of pd ident c bn s]
    mollie_webhook_fetched [of pd ident c s p w bn a]
    mollie_webhook_reads_id_only [of pd pd' c bn s]
    sumup_webhook_no_call [of k bn body t k' t']
  by blast

text \<open>
  The claim as first stated fails for the SumUp adapter: a body announcing
  \<open>checkout_paid\<close> with the amount 10, for a checkout the gateway holds as \<open>FAILED\<close> with
  the amount 5, is answered \<open>captured\<close> with the amount 10, and no gateway call is made.
\<close>

theorem sumup_webhook_trusts_body_counterexample:
  "sumup_getWebhookActionAndData till keeping_BigNumber paid_webhook
       ([a_checkout ''co_1'' ''FAILED''], [])
     = (Inr \<lparr> action = ''captured'',
              data = [(''session_id'', JStr ''co_1''), (''amount'', JNum 10)] \<rparr>,
        ([a_checkout ''co_1'' ''FAILED''], []))
   \<and> fst (getCheckout till [a_checkout ''co_1'' ''FAILED''] (JStr ''co_1''))
     = Inr \<lparr> co_id = ''co_1'', co_checkout_reference = ''medusa_1_x'', co_amount = 5,
             co_currency = ''EUR'', co_status = ''FAILED'', co_merchant_code = ''MC123456'',
             co_transactions = [] \<rparr>"
  by (simp add: sumup_getWebhookActionAndData_def sumup_webhook_try_def paid_webhook_def
        read_member_def opt_member_def get_prop_def or_else_def sumup_action_def
        PaymentActions_SUCCESSFUL_def till_defs Let_def)

text \<open>
  A Mollie webhook body that says \<open>failed\<close> for a payment the gateway holds as \<open>paid\<close>:
  the answer is \<open>captured\<close>, as it is for a body with the id alone.
\<close>

theorem getWebhookActionAndData_source_witness:
  "read_member (JObj [(''id'', JStr ''tr_1''), (''status'', JStr ''failed'')]) ''id''
     = Inr (JStr ''tr_1'')
   \<and> payments_get shop [a_payment ''tr_1'' ''paid''] (JStr ''tr_1'')
     = (Inr (a_payment ''tr_1'' ''paid''), [a_payment ''tr_1'' ''paid''])
   \<and> keeping_BigNumber (pay_amount (a_payment ''tr_1'' ''paid''))
     = Inr (JObj [(''value'', JStr ''10.00''), (''currency'', JStr ''EUR'')])
   \<and> mollie_getWebhookActionAndData shop keeping_BigNumber
        (JObj [(''id'', JStr ''tr_1''), (''status'', JStr ''failed'')])
        ([a_payment ''tr_1'' ''paid''], [])
     = (Inr \<lparr> action = ''captured'',
              data = [(''amount'', JObj [(''value'', JStr ''10.00''), (''currency'', JStr ''EUR'')]),
                      (''session_id'', JStr ''abc''), (''id'', JStr ''tr_1''),
                      (''status'', JStr ''paid''),
                      (''metadata'', JObj [(''idempotency_key'', JStr ''abc'')])] \<rparr>,
        ([a_payment ''tr_1'' ''paid''], [PaymentsGet (JStr ''tr_1'')]))
   \<and> read_member (JObj [(''id'', JStr ''tr_1''), (''status'', JStr ''failed'')]) ''id''
     = read_member (JObj [(''id'', JStr ''tr_1'')]) ''id''
   \<and> mollie_getWebhookActionAndData shop keeping_BigNumber
        (JObj [(''id'', JStr ''tr_1''), (''status'', JStr ''failed'')])
        ([a_payment ''tr_1'' ''paid''], [])
     = mollie_getWebhookActionAndData shop keeping_BigNumber
        (JObj [(''id'', JStr ''tr_1'')]) ([a_payment ''tr_1'' ''paid''], [])"
proof -
  have a: "read_member (JObj [(''id'', JStr ''tr_1''), (''status'', JStr ''failed'')]) ''id''
     = Inr (JStr ''tr_1'')"
    by (simp add: read_member_def get_prop_def)
  have a': "read_member (JObj [(''id'', JStr ''tr_1'')]) ''id'' = Inr (JStr ''tr_1'')"
    by (simp add: read_member_def get_prop_def)
  have b: "payments_get shop [a_payment ''tr_1'' ''paid''] (JStr ''tr_1'')
     = (Inr (a_payment ''tr_1'' ''paid''), [a_payment ''tr_1'' ''paid''])"
    by (simp add: shop_defs)
  have c: "keeping_BigNumber (pay_amount (a_payment ''tr_1'' ''paid''))
     = Inr (JObj [(''value'', JStr ''10.00''), (''currency'', JStr ''EUR'')])"
    by (simp add: a_payment_def)
  have e: "mollie_action ''paid'' = ''captured''" by (simp add: mollie_action_def)
  have f: "spread [(''amount'', JObj [(''value'', JStr ''10.00''), (''currency'', JStr ''EUR'')]),
                   (''session_id'', opt_member (pay_metadata (a_payment ''tr_1'' ''paid'')) ''idempotency_key'')]
             (payment_obj (a_payment ''tr_1'' ''paid''))
      = [(''amount'', JObj [(''value'', JStr ''10.00''), (''currency'', JStr ''EUR'')]),
         (''session_id'', JStr ''abc''), (''id'', JStr ''tr_1''), (''status'', JStr ''paid''),
         (''metadata'', JObj [(''idempotency_key'', JStr ''abc'')])]"
    by (simp add: spread_def payment_obj_def a_payment_def opt_member_def get_prop_def)
  have g: "pay_status (a_payment ''tr_1'' ''paid'') = ''paid''" by (simp add: a_payment_def)
  have h: "read_member (JObj [(''id'', JStr ''tr_1''), (''status'', JStr ''failed'')]) ''id''
     = read_member (JObj [(''id'', JStr ''tr_1'')]) ''id''"
    by (simp only: a a')
  have b2: "payments_get shop (fst ([a_payment ''tr_1'' ''paid''], [] :: mollie_call list)) (JStr ''tr_1'')
     = (Inr (a_payment ''tr_1'' ''paid''), [a_payment ''tr_1'' ''paid''])"
    by (simp add: b)
  from getWebhookActionAndData_source
         [where pd = "JObj [(''id'', JStr ''tr_1''), (''status'', JStr ''failed'')]"
            and ident = "JStr ''tr_1''" and c = shop and bn = keeping_BigNumber
            and s = "([a_payment ''tr_1'' ''paid''], [])" and p = "a_payment ''tr_1'' ''paid''"
            and w = "[a_payment ''tr_1'' ''paid'']"
            and a = "JObj [(''value'', JStr ''10.00''), (''currency'', JStr ''EUR'')]"
            and pd' = "JObj [(''id'', JStr ''tr_1'')]"
            and k = till and body = paid_webhook and k' = till
            and t = "([], [])" and t' = "([], [])"]
  have r: "mollie_getWebhookActionAndData shop keeping_BigNumber
        (JObj [(''id'', JStr ''tr_1''), (''status'', JStr ''failed'')])
        ([a_payment ''tr_1'' ''paid''], [])
     = (Inr \<lparr> action = mollie_action (pay_status (a_payment ''tr_1'' ''paid'')),
              data = spread [(''amount'', JObj [(''value'', JStr ''10.00''), (''currency'', JStr ''EUR'')]),
                   (''session_id'', opt_member (pay_metadata (a_payment ''tr_1'' ''paid'')) ''idempotency_key'')]
             (payment_obj (a_payment ''tr_1'' ''paid'')) \<rparr>,
        ([a_payment ''tr_1'' ''paid''], snd ([a_payment ''tr_1'' ''paid''], []) @ [PaymentsGet (JStr ''tr_1'')]))"
    and q: "mollie_getWebhookActionAndData shop keeping_BigNumber
        (JObj [(''id'', JStr ''tr_1''), (''status'', JStr ''failed'')])
        ([a_payment ''tr_1'' ''paid''], [])
     = mollie_getWebhookActionAndData shop keeping_BigNumber
        (JObj [(''id'', JStr ''tr_1'')]) ([a_payment ''tr_1'' ''paid''], [])"
    using a b2 c h by blast+
  have r': "mollie_getWebhookActionAndData shop keeping_BigNumber
        (JObj [(''id'', JStr ''tr_1''), (''status'', JStr ''failed'')])
        ([a_payment ''tr_1'' ''paid''], [])
     = (Inr \<lparr> action = ''captured'',
              data = [(''amount'', JObj [(''value'', JStr ''10.00''), (''currency'', JStr ''EUR'')]),
                      (''session_id'', JStr ''abc''), (''id'', JStr ''tr_1''),
                      (''status'', JStr ''paid''),
                      (''metadata'', JObj [(''idempotency_key'', JStr ''abc'')])] \<rparr>,
        ([a_payment ''tr_1'' ''paid''], [PaymentsGet (JStr ''tr_1'')]))"
    using r by (simp only: e f g snd_conv append_Nil)
  show ?thesis using a b c h r' q by blast
qed

section \<open>Capturing twice\<close>



























end
